theory Spec2Isabelle
  imports Main
begin

section \<open>The entity store: state and helpers\<close>

text \<open>
  The store-action factory works on a Zustand state of type
  \<^verbatim>\<open>Record<string, unknown>\<close>: a dictionary from field names to values. The field
  names are built from the entity name at run time, so the state is modelled as a map
  from strings to a small universe of values, and not as a record with fixed fields.
\<close>

record api_error =
  message :: string
  statusCode :: int

text \<open>\<^verbatim>\<open>createErrorState\<close> adds \<^verbatim>\<open>timestamp: new Date()\<close>; the clock is a parameter.\<close>

record error_state = api_error +
  timestamp :: nat

text \<open>\<^verbatim>\<open>T extends { id: string }\<close>: a record scheme with the identifier field.\<close>

record entity =
  id_of :: string

datatype 'a val =
    VBool bool
  | VNull
  | VStr string
  | VArr "'a list"
  | VErr error_state

text \<open>
  The world is the store's state together with the number of calls made to the remote
  service so far.
\<close>

record 'a world =
  store :: "string \<rightharpoonup> 'a val"
  calls :: nat

datatype exn = TypeError | Thrown string

text \<open>
  The normalized result of \<^verbatim>\<open>handleApiResponse\<close> (which is not part of the sources at
  hand): the actions read its three fields \<^verbatim>\<open>success\<close>, \<^verbatim>\<open>data\<close> and \<^verbatim>\<open>error\<close>.
  An action receives the outcome of \<^verbatim>\<open>await service.op(...)\<close> followed by
  \<^verbatim>\<open>handleApiResponse\<close>: either one of them threw, or there is a result.
\<close>

record 'd api_result =
  success :: bool
  data :: "'d option"
  error :: "api_error option"

type_synonym 'd outcome = "exn + 'd api_result"

text \<open>
  The store's own filter function, \<^verbatim>\<open>state[`filter${Entity}s`]\<close>, is supplied by each
  store and is not part of the factory. It is a parameter: \<open>None\<close> when the field is
  not a function, otherwise a transformer of the store's state that may also throw.
\<close>

type_synonym 'a filter_fn = "(string \<rightharpoonup> 'a val) \<Rightarrow> exn option \<times> (string \<rightharpoonup> 'a val)"

text \<open>\<^verbatim>\<open>set(partial)\<close> merges the given fields into the state; a later field wins.\<close>

definition set_state :: "(string \<times> 'a val) list \<Rightarrow> 'a world \<Rightarrow> 'a world" where
  "set_state kvs w = w\<lparr>store := fold (\<lambda>(k, v) m. m(k \<mapsto> v)) kvs (store w)\<rparr>"

text \<open>\<^verbatim>\<open>await service.op(...)\<close>: one more call to the remote service.\<close>

definition call_service :: "'a world \<Rightarrow> 'a world" where
  "call_service w = w\<lparr>calls := Suc (calls w)\<rparr>"

text \<open>
  \<^verbatim>\<open>entityName.charAt(0).toUpperCase() + entityName.slice(1)\<close>, on ASCII letters.
\<close>

definition toUpperCase_char :: "char \<Rightarrow> char" where
  "toUpperCase_char c =
     (let n = (of_char c :: nat) in if 97 \<le> n \<and> n \<le> 122 then char_of (n - 32) else c)"

fun capitalize :: "string \<Rightarrow> string" where
  "capitalize [] = []"
| "capitalize (c # cs) = toUpperCase_char c # cs"

definition itemsKey :: "string \<Rightarrow> string" where
  "itemsKey entityName = entityName @ ''s''"

definition filteredKey :: "string \<Rightarrow> string" where
  "filteredKey entityName = ''filtered'' @ capitalize entityName @ ''s''"

definition creatingManyKey :: "string \<Rightarrow> string" where
  "creatingManyKey entityName = ''creatingMany'' @ capitalize entityName @ ''s''"

text \<open>
  \<^verbatim>\<open>state[key] as T[]\<close> followed by a spread, \<^verbatim>\<open>.map\<close> or \<^verbatim>\<open>.filter\<close>: anything but an
  array raises a TypeError inside the updater, and the state stays as it was. (The
  model is typed: a string under the collection key, which the cast excludes and which
  no action writes, counts as not being an array.)
\<close>

fun asArray :: "'a val option \<Rightarrow> 'a list option" where
  "asArray (Some (VArr xs)) = Some xs"
| "asArray _ = None"

text \<open>JavaScript truthiness of a state field (an absent field is \<^verbatim>\<open>undefined\<close>).\<close>

fun truthy :: "'a val option \<Rightarrow> bool" where
  "truthy None = False"
| "truthy (Some (VBool b)) = b"
| "truthy (Some VNull) = False"
| "truthy (Some (VStr s)) = (s \<noteq> [])"
| "truthy (Some (VArr xs)) = True"
| "truthy (Some (VErr e)) = True"

text \<open>\<^verbatim>\<open>String.prototype.includes\<close>.\<close>

fun startsWith :: "string \<Rightarrow> string \<Rightarrow> bool" where
  "startsWith s [] = True"
| "startsWith [] (p # ps) = False"
| "startsWith (c # cs) (p # ps) = (c = p \<and> startsWith cs ps)"

fun includes_str :: "string \<Rightarrow> string \<Rightarrow> bool" where
  "includes_str [] p = startsWith [] p"
| "includes_str (c # cs) p = (startsWith (c # cs) p \<or> includes_str cs p)"

definition createErrorState :: "api_error \<Rightarrow> nat \<Rightarrow> error_state" where
  "createErrorState err now =
     \<lparr>message = message err, statusCode = statusCode err, timestamp = now\<rparr>"

text \<open>
  \<^verbatim>\<open>handleActionError\<close> and \<^verbatim>\<open>handleResultError\<close>. The function \<^verbatim>\<open>handleApiError\<close>,
  which turns a thrown value and a default message into an error, is not part of the
  sources at hand and is the parameter \<open>hae\<close>. \<^verbatim>\<open>showNotification\<close> is an output sink
  that no action reads back; it is left out of the state.
\<close>

definition handleActionError ::
  "(exn \<Rightarrow> string \<Rightarrow> api_error) \<Rightarrow> nat \<Rightarrow> exn \<Rightarrow> string \<Rightarrow> string \<Rightarrow> 'a world \<Rightarrow> 'a world" where
  "handleActionError hae now err entityName operation w =
     (let apiError = hae err (''Failed to '' @ operation @ '' '' @ entityName)
      in set_state [(''lastError'', VErr (createErrorState apiError now))] w)"

definition handleResultError :: "nat \<Rightarrow> api_error \<Rightarrow> 'a world \<Rightarrow> 'a world" where
  "handleResultError now err w =
     set_state [(''lastError'', VErr (createErrorState err now))] w"

text \<open>
  The closing lines of every success helper: look the filter function up and call it
  when it is a function.
\<close>

definition runFilter :: "'a filter_fn option \<Rightarrow> 'a world \<Rightarrow> exn option \<times> 'a world" where
  "runFilter ff w =
     (case ff of
        None \<Rightarrow> (None, w)
      | Some f \<Rightarrow> (fst (f (store w)), w\<lparr>store := snd (f (store w))\<rparr>))"

section \<open>The generated actions\<close>

definition handleCreateSuccess ::
  "'a \<Rightarrow> string \<Rightarrow> 'a filter_fn option \<Rightarrow> 'a world \<Rightarrow> exn option \<times> 'a world" where
  "handleCreateSuccess d entityName ff w =
     (case asArray (store w (itemsKey entityName)) of
        None \<Rightarrow> (Some TypeError, w)
      | Some xs \<Rightarrow> runFilter ff (set_state [(itemsKey entityName, VArr (d # xs))] w))"

definition createCreateAction ::
  "(exn \<Rightarrow> string \<Rightarrow> api_error) \<Rightarrow> nat \<Rightarrow> 'a filter_fn option \<Rightarrow> string \<Rightarrow>
     'a outcome \<Rightarrow> 'a world \<Rightarrow> bool \<times> 'a world" where
  "createCreateAction hae now ff entityName outcome w =
     (let w1 = call_service (set_state [(''creating'', VBool True), (''lastError'', VNull)] w);
          (r, w2) =
            (case outcome of
               Inl e \<Rightarrow> (False, handleActionError hae now e entityName ''create'' w1)
             | Inr result \<Rightarrow>
                 (case (if success result then data result else None) of
                    Some d \<Rightarrow>
                      (case handleCreateSuccess d entityName ff w1 of
                         (None, w') \<Rightarrow> (True, w')
                       | (Some e, w') \<Rightarrow>
                           (False, handleActionError hae now e entityName ''create'' w'))
                  | None \<Rightarrow>
                      (case error result of
                         Some err \<Rightarrow>
                           (False, set_state [(''lastError'', VErr (createErrorState err now))] w1)
                       | None \<Rightarrow> (False, w1))))
      in (r, set_state [(''creating'', VBool False)] w2))"

definition handleUpdateSuccess ::
  "'m entity_scheme \<Rightarrow> string \<Rightarrow> string \<Rightarrow> 'm entity_scheme filter_fn option \<Rightarrow>
     'm entity_scheme world \<Rightarrow> exn option \<times> 'm entity_scheme world" where
  "handleUpdateSuccess d i entityName ff w =
     (case asArray (store w (itemsKey entityName)) of
        None \<Rightarrow> (Some TypeError, w)
      | Some xs \<Rightarrow>
          runFilter ff
            (set_state
               [(itemsKey entityName, VArr (map (\<lambda>item. if id_of item = i then d else item) xs))]
               w))"

definition createUpdateAction ::
  "(exn \<Rightarrow> string \<Rightarrow> api_error) \<Rightarrow> nat \<Rightarrow> 'm entity_scheme filter_fn option \<Rightarrow> string \<Rightarrow>
     string \<Rightarrow> 'm entity_scheme outcome \<Rightarrow> 'm entity_scheme world \<Rightarrow>
     bool \<times> 'm entity_scheme world" where
  "createUpdateAction hae now ff entityName i outcome w =
     (let w1 = call_service (set_state [(''updating'', VBool True), (''lastError'', VNull)] w);
          (r, w2) =
            (case outcome of
               Inl e \<Rightarrow> (False, handleActionError hae now e entityName ''update'' w1)
             | Inr result \<Rightarrow>
                 (case (if success result then data result else None) of
                    Some d \<Rightarrow>
                      (case handleUpdateSuccess d i entityName ff w1 of
                         (None, w') \<Rightarrow> (True, w')
                       | (Some e, w') \<Rightarrow>
                           (False, handleActionError hae now e entityName ''update'' w'))
                  | None \<Rightarrow>
                      (case error result of
                         Some err \<Rightarrow> (False, handleResultError now err w1)
                       | None \<Rightarrow> (False, w1))))
      in (r, set_state [(''updating'', VBool False)] w2))"

definition createToggleStatusAction ::
  "(exn \<Rightarrow> string \<Rightarrow> api_error) \<Rightarrow> nat \<Rightarrow> 'm entity_scheme filter_fn option \<Rightarrow> string \<Rightarrow>
     string \<Rightarrow> 'm entity_scheme outcome \<Rightarrow> 'm entity_scheme world \<Rightarrow>
     bool \<times> 'm entity_scheme world" where
  "createToggleStatusAction hae now ff entityName i outcome w =
     (let loadingField = ''togglingStatus'';
          w1 = call_service (set_state [(loadingField, VBool True), (''lastError'', VNull)] w);
          (r, w2) =
            (case outcome of
               Inl e \<Rightarrow> (False, handleActionError hae now e entityName ''toggle status'' w1)
             | Inr result \<Rightarrow>
                 (case (if success result then data result else None) of
                    Some d \<Rightarrow>
                      (case handleUpdateSuccess d i entityName ff w1 of
                         (None, w') \<Rightarrow> (True, w')
                       | (Some e, w') \<Rightarrow>
                           (False, handleActionError hae now e entityName ''toggle status'' w'))
                  | None \<Rightarrow>
                      (case error result of
                         Some err \<Rightarrow> (False, handleResultError now err w1)
                       | None \<Rightarrow> (False, w1))))
      in (r, set_state [(loadingField, VBool False)] w2))"

definition handleDeleteSuccess ::
  "string \<Rightarrow> string \<Rightarrow> 'm entity_scheme filter_fn option \<Rightarrow>
     'm entity_scheme world \<Rightarrow> exn option \<times> 'm entity_scheme world" where
  "handleDeleteSuccess i entityName ff w =
     (case asArray (store w (itemsKey entityName)) of
        None \<Rightarrow> (Some TypeError, w)
      | Some xs \<Rightarrow>
          runFilter ff
            (set_state [(itemsKey entityName, VArr (filter (\<lambda>item. id_of item \<noteq> i) xs))] w))"

text \<open>The delete service returns no data: success is \<^verbatim>\<open>result.success\<close> alone.\<close>

definition createDeleteAction ::
  "(exn \<Rightarrow> string \<Rightarrow> api_error) \<Rightarrow> nat \<Rightarrow> 'm entity_scheme filter_fn option \<Rightarrow> string \<Rightarrow>
     string \<Rightarrow> unit outcome \<Rightarrow> 'm entity_scheme world \<Rightarrow> bool \<times> 'm entity_scheme world" where
  "createDeleteAction hae now ff entityName i outcome w =
     (let w1 = call_service (set_state [(''deleting'', VBool True), (''lastError'', VNull)] w);
          (r, w2) =
            (case outcome of
               Inl e \<Rightarrow> (False, handleActionError hae now e entityName ''delete'' w1)
             | Inr result \<Rightarrow>
                 (if success result then
                    (case handleDeleteSuccess i entityName ff w1 of
                       (None, w') \<Rightarrow> (True, w')
                     | (Some e, w') \<Rightarrow>
                         (False, handleActionError hae now e entityName ''delete'' w'))
                  else
                    (case error result of
                       Some err \<Rightarrow> (False, handleResultError now err w1)
                     | None \<Rightarrow> (False, w1))))
      in (r, set_state [(''deleting'', VBool False)] w2))"

text \<open>
  Batch create: the updater and the filter call are written in the action itself. Two
  busy-flags are set, the legacy \<^verbatim>\<open>creatingMany\<close> and the one named after the entity.
\<close>

definition createBatchCreateAction ::
  "(exn \<Rightarrow> string \<Rightarrow> api_error) \<Rightarrow> nat \<Rightarrow> 'a filter_fn option \<Rightarrow> string \<Rightarrow>
     'a list outcome \<Rightarrow> 'a world \<Rightarrow> bool \<times> 'a world" where
  "createBatchCreateAction hae now ff entityName outcome w =
     (let legacyLoadingField = ''creatingMany'';
          newLoadingField = creatingManyKey entityName;
          w1 = call_service
                 (set_state
                    [(legacyLoadingField, VBool True), (newLoadingField, VBool True),
                     (''lastError'', VNull)] w);
          (r, w2) =
            (case outcome of
               Inl e \<Rightarrow> (False, handleActionError hae now e (entityName @ ''s'') ''create'' w1)
             | Inr result \<Rightarrow>
                 (case (if success result then data result else None) of
                    Some ds \<Rightarrow>
                      (case (case asArray (store w1 (itemsKey entityName)) of
                               None \<Rightarrow> (Some TypeError, w1)
                             | Some xs \<Rightarrow>
                                 runFilter ff
                                   (set_state [(itemsKey entityName, VArr (ds @ xs))] w1)) of
                         (None, w') \<Rightarrow> (True, w')
                       | (Some e, w') \<Rightarrow>
                           (False,
                            handleActionError hae now e (entityName @ ''s'') ''create'' w'))
                  | None \<Rightarrow>
                      (case error result of
                         Some err \<Rightarrow>
                           (False, set_state [(''lastError'', VErr (createErrorState err now))] w1)
                       | None \<Rightarrow> (False, w1))))
      in (r, set_state [(legacyLoadingField, VBool False), (newLoadingField, VBool False)] w2))"

definition handleFetchSuccess ::
  "'a list \<Rightarrow> string \<Rightarrow> 'a filter_fn option \<Rightarrow> 'a world \<Rightarrow> exn option \<times> 'a world" where
  "handleFetchSuccess ds entityName ff w =
     runFilter ff
       (set_state [(itemsKey entityName, VArr ds), (filteredKey entityName, VArr ds)] w)"

definition createFetchAction ::
  "(exn \<Rightarrow> string \<Rightarrow> api_error) \<Rightarrow> nat \<Rightarrow> 'a filter_fn option \<Rightarrow> string \<Rightarrow>
     'a list outcome \<Rightarrow> 'a world \<Rightarrow> 'a world" where
  "createFetchAction hae now ff entityName outcome w =
     (let w1 = call_service (set_state [(''loading'', VBool True), (''lastError'', VNull)] w);
          w2 =
            (case outcome of
               Inl e \<Rightarrow> handleActionError hae now e (entityName @ ''s'') ''fetch'' w1
             | Inr result \<Rightarrow>
                 (case (if success result then data result else None) of
                    Some ds \<Rightarrow>
                      (case handleFetchSuccess ds entityName ff w1 of
                         (None, w') \<Rightarrow> w'
                       | (Some e, w') \<Rightarrow>
                           handleActionError hae now e (entityName @ ''s'') ''fetch'' w')
                  | None \<Rightarrow>
                      (case error result of
                         Some err \<Rightarrow> handleResultError now err w1
                       | None \<Rightarrow> w1)))
      in set_state [(''loading'', VBool False)] w2)"

text \<open>
  Fetch by semester. The cache test reads the field \<^verbatim>\<open>students\<close> by that very name,
  whatever the entity name is, and the remembered \<^verbatim>\<open>lastSemesterId\<close>.
\<close>

definition cachedFor :: "string \<Rightarrow> 'a world \<Rightarrow> bool" where
  "cachedFor semesterId w =
     (truthy (store w ''students'') \<and> store w ''lastSemesterId'' = Some (VStr semesterId))"

definition emptyDataError :: "api_error \<Rightarrow> bool" where
  "emptyDataError err =
     (statusCode err = 409 \<and> message err \<noteq> [] \<and>
      (includes_str (message err) ''NotYet'' \<or> includes_str (message err) ''End'' \<or>
       includes_str (message err) ''semesters allow student enrollment''))"

definition createFetchBySemesterAction ::
  "(exn \<Rightarrow> string \<Rightarrow> api_error) \<Rightarrow> nat \<Rightarrow> 'a filter_fn option \<Rightarrow> string \<Rightarrow>
     string \<Rightarrow> bool \<Rightarrow> 'a list outcome \<Rightarrow> 'a world \<Rightarrow> 'a world" where
  "createFetchBySemesterAction hae now ff entityName semesterId force outcome w =
     (if \<not> force \<and> cachedFor semesterId w then w
      else
        (let w1 = call_service (set_state [(''loading'', VBool True), (''lastError'', VNull)] w);
             w2 =
               (case outcome of
                  Inl e \<Rightarrow>
                    handleActionError hae now e (entityName @ ''s'') ''fetch by semester'' w1
                | Inr result \<Rightarrow>
                    (case (if success result then data result else None) of
                       Some ds \<Rightarrow>
                         (case handleFetchSuccess ds entityName ff w1 of
                            (None, w') \<Rightarrow> set_state [(''lastSemesterId'', VStr semesterId)] w'
                          | (Some e, w') \<Rightarrow>
                              handleActionError hae now e (entityName @ ''s'')
                                ''fetch by semester'' w')
                     | None \<Rightarrow>
                         (case error result of
                            Some err \<Rightarrow>
                              (if emptyDataError err then
                                 (case handleFetchSuccess [] entityName ff w1 of
                                    (None, w') \<Rightarrow>
                                      set_state [(''lastSemesterId'', VStr semesterId)] w'
                                  | (Some e, w') \<Rightarrow>
                                      handleActionError hae now e (entityName @ ''s'')
                                        ''fetch by semester'' w')
                               else handleResultError now err w1)
                          | None \<Rightarrow> w1)))
         in set_state [(''loading'', VBool False)] w2))"

section \<open>The HTTP interceptors\<close>

text \<open>
  A request descriptor: the fields the interceptors read and write. \<^verbatim>\<open>_retry\<close> is the
  optional flag of \<^verbatim>\<open>ExtendedAxiosRequestConfig\<close>.
\<close>

record request_config =
  url :: "string option"
  headers :: "(string \<rightharpoonup> string) option"
  retry :: "bool option"

text \<open>The failure handed to the error handler: \<^verbatim>\<open>error.config\<close> and \<^verbatim>\<open>error.response?.status\<close>.\<close>

record axios_error =
  config :: "request_config option"
  status :: "int option"

text \<open>
  What the handler changes outside the request: the credentials held by the token
  manager, emptied by \<^verbatim>\<open>TokenManager.clearTokens()\<close>, and \<^verbatim>\<open>window.location.href\<close>,
  which is \<open>None\<close> where no \<^verbatim>\<open>window\<close> exists.
\<close>

record session =
  credentials :: "(string \<times> string) option"
  window :: "string option"

definition authEndpoints :: "string list" where
  "authEndpoints =
     [''/auth/admin/login'', ''/auth/user/login'', ''/auth/admin/refresh'', ''/auth/user/refresh'']"

definition isAuthEndpoint :: "request_config \<Rightarrow> bool" where
  "isAuthEndpoint cfg =
     list_ex (\<lambda>endpoint. case url cfg of None \<Rightarrow> False | Some u \<Rightarrow> includes_str u endpoint)
       authEndpoints"

text \<open>
  \<^verbatim>\<open>cfg.headers = cfg.headers ?? {}; cfg.headers.Authorization = `Bearer ${token}`\<close>.
\<close>

definition setAuthorization :: "string \<Rightarrow> request_config \<Rightarrow> request_config" where
  "setAuthorization token cfg =
     cfg\<lparr>headers :=
           Some ((case headers cfg of None \<Rightarrow> Map.empty | Some h \<Rightarrow> h)
                   (''Authorization'' \<mapsto> ''Bearer '' @ token))\<rparr>"

text \<open>
  The request interceptor. The token manager is not among the sources: the outcome of
  \<^verbatim>\<open>await TokenManager.getValidAccessToken()\<close> is a parameter, a thrown value or
  a token that may be absent. An empty token is falsy.
\<close>

definition createRequestInterceptor ::
  "exn + string option \<Rightarrow> request_config \<Rightarrow> request_config" where
  "createRequestInterceptor tokenOutcome cfg =
     (if isAuthEndpoint cfg then cfg
      else
        (case tokenOutcome of
           Inl e \<Rightarrow> cfg
         | Inr accessToken \<Rightarrow>
             (case accessToken of
                None \<Rightarrow> cfg
              | Some t \<Rightarrow> if t \<noteq> [] then setAuthorization t cfg else cfg)))"

text \<open>
  The response error handler. It ends in one of three ways: it rejects with the error
  it was given, it rejects with what \<^verbatim>\<open>refreshAccessToken\<close> threw, or it returns
  \<^verbatim>\<open>httpClient(originalRequest)\<close>; the last is the value \<open>Reissue\<close>, which the client
  below carries out. The outcome of \<^verbatim>\<open>await TokenManager.refreshAccessToken()\<close> is a
  parameter. Setting \<^verbatim>\<open>_retry\<close> mutates the request that the error refers to, so the
  rejected error carries the marked request. (\<^verbatim>\<open>isRetryableRequest\<close> holds of every
  request object, so its branch is never taken.)
\<close>

datatype handler_result = Reject axios_error | RejectThrown exn | Reissue request_config

definition createResponseErrorHandler ::
  "exn + string option \<Rightarrow> axios_error \<Rightarrow> session \<Rightarrow> handler_result \<times> session" where
  "createResponseErrorHandler refreshOutcome err sess =
     (case config err of
        None \<Rightarrow> (Reject err, sess)
      | Some originalRequest \<Rightarrow>
          (if status err = Some 401 \<and> retry originalRequest \<noteq> Some True \<and>
              \<not> isAuthEndpoint originalRequest
           then
             (let retried = originalRequest\<lparr>retry := Some True\<rparr> in
              case refreshOutcome of
                Inl e \<Rightarrow> (RejectThrown e, sess)
              | Inr newAccessToken \<Rightarrow>
                  (case (case newAccessToken of
                           None \<Rightarrow> None
                         | Some t \<Rightarrow> if t \<noteq> [] then Some t else None) of
                     Some t \<Rightarrow> (Reissue (setAuthorization t retried), sess)
                   | None \<Rightarrow>
                       (Reject (err\<lparr>config := Some retried\<rparr>),
                        sess\<lparr>credentials := None,
                             window := (case window sess of
                                          None \<Rightarrow> None
                                        | Some href \<Rightarrow> Some ''/login'')\<rparr>)))
           else (Reject err, sess)))"

text \<open>
  Modelled from the spec: the configured request client (the module \<^verbatim>\<open>_httpClient\<close>,
  which registers the interceptors on the client, is not among the sources). A request
  passes the outgoing hook and is sent; a success passes through unchanged; a failure
  goes to the response failure hook, whose reissue is a new request through the same
  client, with the descriptor (and its retry mark) as the hook left it. The remote
  side is a parameter: \<open>server n cfg\<close> answers the request sent after \<open>n\<close> earlier ones
  with a response or with the status of a failure; \<open>tokenAt\<close> and \<open>refreshAt\<close> give the
  token manager's outcomes at that moment. The result also counts the requests sent.
\<close>

datatype 'r settled = Resolved 'r | Rejected axios_error | RejectedThrown exn

function httpClient ::
  "(nat \<Rightarrow> request_config \<Rightarrow> int option + 'r) \<Rightarrow> (nat \<Rightarrow> exn + string option) \<Rightarrow>
     (nat \<Rightarrow> exn + string option) \<Rightarrow> nat \<Rightarrow> request_config \<Rightarrow> session \<Rightarrow>
     'r settled \<times> nat \<times> session" where
  "httpClient server tokenAt refreshAt n cfg sess =
     (let sent = createRequestInterceptor (tokenAt n) cfg in
      case server n sent of
        Inr response \<Rightarrow> (Resolved response, Suc n, sess)
      | Inl st \<Rightarrow>
          (case createResponseErrorHandler (refreshAt n) \<lparr>config = Some sent, status = st\<rparr> sess of
             (Reject err, sess') \<Rightarrow> (Rejected err, Suc n, sess')
           | (RejectThrown e, sess') \<Rightarrow> (RejectedThrown e, Suc n, sess')
           | (Reissue again, sess') \<Rightarrow> httpClient server tokenAt refreshAt (Suc n) again sess'))"
  by pat_completeness auto
termination
  apply (relation "measure (\<lambda>(server, tokenAt, refreshAt, n, cfg, sess).
                              if retry cfg = Some True then 0 else 1)")
   apply simp
  apply (auto simp: createRequestInterceptor_def createResponseErrorHandler_def
      setAuthorization_def Let_def split: option.splits if_splits sum.splits)
  done

declare httpClient.simps [simp del]

section \<open>Vocabulary of the properties\<close>

text \<open>The collection of an entity: the array under \<^verbatim>\<open>`${entityName}s`\<close>, if there is one.\<close>

definition collection :: "string \<Rightarrow> 'a world \<Rightarrow> 'a list option" where
  "collection entityName w = asArray (store w (itemsKey entityName))"

text \<open>
  The data an action takes for its success: \<^verbatim>\<open>result.success && result.data\<close>, of a
  call that did not throw.
\<close>

definition returned :: "'d outcome \<Rightarrow> 'd option" where
  "returned outcome =
     (case outcome of
        Inl e \<Rightarrow> None
      | Inr result \<Rightarrow> if success result then data result else None)"

text \<open>How many records of a list carry a given identifier.\<close>

definition count_id :: "string \<Rightarrow> 'm entity_scheme list \<Rightarrow> nat" where
  "count_id i xs = length (filter (\<lambda>item. id_of item = i) xs)"

text \<open>
  Two conditions on a store's filter function, the parameter of the actions: it leaves
  a given field of the state as it is, and it returns without throwing. A store
  without a filter function meets both.
\<close>

definition filter_keeps :: "'a filter_fn option \<Rightarrow> string \<Rightarrow> bool" where
  "filter_keeps ff k =
     (case ff of None \<Rightarrow> True | Some f \<Rightarrow> \<forall>s. snd (f s) k = s k)"

definition filter_returns :: "'a filter_fn option \<Rightarrow> bool" where
  "filter_returns ff = (case ff of None \<Rightarrow> True | Some f \<Rightarrow> \<forall>s. fst (f s) = None)"

text \<open>A settled request that did not resolve.\<close>

fun is_rejection :: "'r settled \<Rightarrow> bool" where
  "is_rejection (Resolved r) = False"
| "is_rejection (Rejected e) = True"
| "is_rejection (RejectedThrown e) = True"

text \<open>
  Sample inputs for the closed instances below: an error mapping, a store of students
  with a filter function that copies the collection into the filtered view, and a
  server that rejects every request with status 401.
\<close>

definition sample_hae :: "exn \<Rightarrow> string \<Rightarrow> api_error" where
  "sample_hae e msg = \<lparr>message = msg, statusCode = 500\<rparr>"

definition sample_world :: "'a list \<Rightarrow> 'a world" where
  "sample_world xs = \<lparr>store = [''students'' \<mapsto> VArr xs], calls = 0\<rparr>"

definition sample_filter :: "'a filter_fn" where
  "sample_filter s =
     (None, case s ''students'' of None \<Rightarrow> s | Some v \<Rightarrow> s(''filteredStudents'' \<mapsto> v))"

definition sample_ok :: "'d \<Rightarrow> 'd outcome" where
  "sample_ok d = Inr \<lparr>success = True, data = Some d, error = None\<rparr>"

definition sample_failed :: "int \<Rightarrow> string \<Rightarrow> 'd outcome" where
  "sample_failed code msg =
     Inr \<lparr>success = False, data = None, error = Some \<lparr>message = msg, statusCode = code\<rparr>\<rparr>"

definition sample_request :: "string \<Rightarrow> request_config" where
  "sample_request u = \<lparr>url = Some u, headers = None, retry = None\<rparr>"

definition sample_session :: "string option \<Rightarrow> session" where
  "sample_session win = \<lparr>credentials = Some (''access'', ''refresh''), window = win\<rparr>"

definition server_401 :: "nat \<Rightarrow> request_config \<Rightarrow> int option + unit" where
  "server_401 n cfg = Inl (Some 401)"

definition token_of :: "string \<Rightarrow> nat \<Rightarrow> exn + string option" where
  "token_of t n = Inr (Some t)"

section \<open>Auxiliary facts\<close>

lemma interceptor_retry: "retry (createRequestInterceptor t cfg) = retry cfg"
  by (simp add: createRequestInterceptor_def setAuthorization_def split: sum.splits option.splits)

lemma handler_reissue:
  "createResponseErrorHandler r err sess = (Reissue c2, sess') \<Longrightarrow>
     retry c2 = Some True \<and> (\<exists>c. config err = Some c \<and> retry c \<noteq> Some True)"
  by (auto simp: createResponseErrorHandler_def setAuthorization_def Let_def
      split: option.splits if_splits sum.splits)

lemma store_set_state_single:
  "store (set_state [(k, v)] w) k' = (if k' = k then Some v else store w k')"
  by (simp add: set_state_def)

lemma store_set_state_pair:
  "store (set_state [(k1, v1), (k2, v2)] w) k' =
     (if k' = k2 then Some v2 else if k' = k1 then Some v1 else store w k')"
  by (simp add: set_state_def)

lemma calls_set_state: "calls (set_state kvs w) = calls w"
  by (simp add: set_state_def)

lemma store_call_service: "store (call_service w) = store w"
  by (simp add: call_service_def)

lemma calls_call_service: "calls (call_service w) = Suc (calls w)"
  by (simp add: call_service_def)

lemma store_handleResultError:
  "store (handleResultError now err w) k =
     (if k = ''lastError'' then Some (VErr (createErrorState err now)) else store w k)"
  by (simp add: handleResultError_def store_set_state_single)

lemma itemsKey_last: "last (itemsKey e) = CHR ''s''"
  by (simp add: itemsKey_def)

lemma itemsKey_neq:
  "itemsKey e \<noteq> ''creating''" "itemsKey e \<noteq> ''updating''" "itemsKey e \<noteq> ''deleting''"
  "itemsKey e \<noteq> ''lastError''" "itemsKey e \<noteq> ''loading''" "itemsKey e \<noteq> ''lastSemesterId''"
  "itemsKey e \<noteq> ''creatingMany''"
  using itemsKey_last [of e] by auto

lemma asArray_Some: "asArray v = Some xs \<longleftrightarrow> v = Some (VArr xs)"
  by (cases v rule: asArray.cases) auto

lemma runFilter_keeps: "filter_keeps ff k \<Longrightarrow> store (snd (runFilter ff w)) k = store w k"
  by (auto simp: filter_keeps_def runFilter_def split: option.splits)

lemma runFilter_returns: "filter_returns ff \<Longrightarrow> fst (runFilter ff w) = None"
  by (auto simp: filter_returns_def runFilter_def split: option.splits)

lemma calls_runFilter: "calls (snd (runFilter ff w)) = calls w"
  by (simp add: runFilter_def split: option.splits)

lemma handleCreateSuccess_done:
  assumes "handleCreateSuccess d e ff w1 = (None, w2)" and "filter_keeps ff (itemsKey e)"
  shows "\<exists>xs. store w1 (itemsKey e) = Some (VArr xs) \<and>
              store w2 (itemsKey e) = Some (VArr (d # xs))"
proof -
  from assms(1) obtain xs where xs: "asArray (store w1 (itemsKey e)) = Some xs"
    and rf: "runFilter ff (set_state [(itemsKey e, VArr (d # xs))] w1) = (None, w2)"
    by (auto simp: handleCreateSuccess_def split: option.splits)
  from runFilter_keeps [OF assms(2), of "set_state [(itemsKey e, VArr (d # xs))] w1"] rf
  have "store w2 (itemsKey e) = Some (VArr (d # xs))"
    by (simp add: store_set_state_single)
  with xs show ?thesis by (auto simp: asArray_Some)
qed

lemma handleUpdateSuccess_done:
  assumes "handleUpdateSuccess d i e ff w1 = (None, w2)" and "filter_keeps ff (itemsKey e)"
  shows "\<exists>xs. store w1 (itemsKey e) = Some (VArr xs) \<and>
              store w2 (itemsKey e) =
                Some (VArr (map (\<lambda>item. if id_of item = i then d else item) xs))"
proof -
  from assms(1) obtain xs where xs: "asArray (store w1 (itemsKey e)) = Some xs"
    and rf: "runFilter ff
               (set_state [(itemsKey e, VArr (map (\<lambda>item. if id_of item = i then d else item) xs))]
                  w1) = (None, w2)"
    by (auto simp: handleUpdateSuccess_def split: option.splits)
  from runFilter_keeps [OF assms(2),
      of "set_state [(itemsKey e, VArr (map (\<lambda>item. if id_of item = i then d else item) xs))] w1"]
    rf
  have "store w2 (itemsKey e) =
          Some (VArr (map (\<lambda>item. if id_of item = i then d else item) xs))"
    by (simp add: store_set_state_single)
  with xs show ?thesis by (auto simp: asArray_Some)
qed

lemma handleDeleteSuccess_done:
  assumes "handleDeleteSuccess i e ff w1 = (None, w2)" and "filter_keeps ff (itemsKey e)"
  shows "\<exists>xs. store w1 (itemsKey e) = Some (VArr xs) \<and>
              store w2 (itemsKey e) = Some (VArr (filter (\<lambda>item. id_of item \<noteq> i) xs))"
proof -
  from assms(1) obtain xs where xs: "asArray (store w1 (itemsKey e)) = Some xs"
    and rf: "runFilter ff
               (set_state [(itemsKey e, VArr (filter (\<lambda>item. id_of item \<noteq> i) xs))] w1) =
             (None, w2)"
    by (auto simp: handleDeleteSuccess_def split: option.splits)
  from runFilter_keeps [OF assms(2),
      of "set_state [(itemsKey e, VArr (filter (\<lambda>item. id_of item \<noteq> i) xs))] w1"] rf
  have "store w2 (itemsKey e) = Some (VArr (filter (\<lambda>item. id_of item \<noteq> i) xs))"
    by (simp add: store_set_state_single)
  with xs show ?thesis by (auto simp: asArray_Some)
qed

lemma create_success:
  assumes "createCreateAction hae now ff e outcome w = (True, w')"
    and "filter_keeps ff (itemsKey e)"
  shows "\<exists>res d xs. outcome = Inr res \<and> success res \<and> data res = Some d \<and>
           store w (itemsKey e) = Some (VArr xs) \<and>
           store w' (itemsKey e) = Some (VArr (d # xs))"
proof -
  let ?w1 = "call_service (set_state [(''creating'', VBool True), (''lastError'', VNull)] w)"
  from assms(1) obtain res d where o: "outcome = Inr res" "success res" "data res = Some d"
    by (auto simp: createCreateAction_def Let_def
        split: sum.splits option.splits prod.splits if_splits)
  from assms(1) o obtain w2 where h: "handleCreateSuccess d e ff ?w1 = (None, w2)"
    and w': "w' = set_state [(''creating'', VBool False)] w2"
    by (auto simp: createCreateAction_def Let_def split: option.splits prod.splits)
  from handleCreateSuccess_done [OF h assms(2)] obtain xs
    where "store ?w1 (itemsKey e) = Some (VArr xs)"
      and "store w2 (itemsKey e) = Some (VArr (d # xs))" by blast
  with w' have "store w (itemsKey e) = Some (VArr xs)"
    and "store w' (itemsKey e) = Some (VArr (d # xs))"
    by (simp_all add: store_call_service store_set_state_pair store_set_state_single itemsKey_neq)
  with o show ?thesis by blast
qed

lemma update_success:
  assumes "createUpdateAction hae now ff e i outcome w = (True, w')"
    and "filter_keeps ff (itemsKey e)"
  shows "\<exists>res d xs. outcome = Inr res \<and> success res \<and> data res = Some d \<and>
           store w (itemsKey e) = Some (VArr xs) \<and>
           store w' (itemsKey e) =
             Some (VArr (map (\<lambda>item. if id_of item = i then d else item) xs))"
proof -
  let ?w1 = "call_service (set_state [(''updating'', VBool True), (''lastError'', VNull)] w)"
  from assms(1) obtain res d where o: "outcome = Inr res" "success res" "data res = Some d"
    by (auto simp: createUpdateAction_def Let_def
        split: sum.splits option.splits prod.splits if_splits)
  from assms(1) o obtain w2 where h: "handleUpdateSuccess d i e ff ?w1 = (None, w2)"
    and w': "w' = set_state [(''updating'', VBool False)] w2"
    by (auto simp: createUpdateAction_def Let_def split: option.splits prod.splits)
  from handleUpdateSuccess_done [OF h assms(2)] obtain xs
    where "store ?w1 (itemsKey e) = Some (VArr xs)"
      and "store w2 (itemsKey e) =
             Some (VArr (map (\<lambda>item. if id_of item = i then d else item) xs))" by blast
  with w' have "store w (itemsKey e) = Some (VArr xs)"
    and "store w' (itemsKey e) =
           Some (VArr (map (\<lambda>item. if id_of item = i then d else item) xs))"
    by (simp_all add: store_call_service store_set_state_pair store_set_state_single itemsKey_neq)
  with o show ?thesis by blast
qed

lemma toggle_success:
  assumes "createToggleStatusAction hae now ff e i outcome w = (True, w')"
    and "filter_keeps ff (itemsKey e)"
  shows "\<exists>res d xs. outcome = Inr res \<and> success res \<and> data res = Some d \<and>
           store w (itemsKey e) = Some (VArr xs) \<and>
           store w' (itemsKey e) =
             Some (VArr (map (\<lambda>item. if id_of item = i then d else item) xs))"
proof -
  let ?w1 =
    "call_service (set_state [(''togglingStatus'', VBool True), (''lastError'', VNull)] w)"
  from assms(1) obtain res d where o: "outcome = Inr res" "success res" "data res = Some d"
    by (auto simp: createToggleStatusAction_def Let_def
        split: sum.splits option.splits prod.splits if_splits)
  from assms(1) o obtain w2 where h: "handleUpdateSuccess d i e ff ?w1 = (None, w2)"
    and w': "w' = set_state [(''togglingStatus'', VBool False)] w2"
    by (auto simp: createToggleStatusAction_def Let_def split: option.splits prod.splits)
  from handleUpdateSuccess_done [OF h assms(2)] obtain xs
    where s1: "store ?w1 (itemsKey e) = Some (VArr xs)"
      and s2: "store w2 (itemsKey e) =
             Some (VArr (map (\<lambda>item. if id_of item = i then d else item) xs))" by blast
  from s1 have ne: "itemsKey e \<noteq> ''togglingStatus''"
    by (auto simp: store_call_service store_set_state_pair)
  with s1 s2 w' have "store w (itemsKey e) = Some (VArr xs)"
    and "store w' (itemsKey e) =
           Some (VArr (map (\<lambda>item. if id_of item = i then d else item) xs))"
    by (simp_all add: store_call_service store_set_state_pair store_set_state_single itemsKey_neq)
  with o show ?thesis by blast
qed

lemma delete_success:
  assumes "createDeleteAction hae now ff e i outcome w = (True, w')"
    and "filter_keeps ff (itemsKey e)"
  shows "\<exists>xs. store w (itemsKey e) = Some (VArr xs) \<and>
           store w' (itemsKey e) = Some (VArr (filter (\<lambda>item. id_of item \<noteq> i) xs))"
proof -
  let ?w1 = "call_service (set_state [(''deleting'', VBool True), (''lastError'', VNull)] w)"
  from assms(1) obtain w2 where h: "handleDeleteSuccess i e ff ?w1 = (None, w2)"
    and w': "w' = set_state [(''deleting'', VBool False)] w2"
    by (auto simp: createDeleteAction_def Let_def
        split: sum.splits option.splits prod.splits if_splits)
  from handleDeleteSuccess_done [OF h assms(2)] obtain xs
    where "store ?w1 (itemsKey e) = Some (VArr xs)"
      and "store w2 (itemsKey e) = Some (VArr (filter (\<lambda>item. id_of item \<noteq> i) xs))"
    by blast
  with w' have "store w (itemsKey e) = Some (VArr xs)"
    and "store w' (itemsKey e) = Some (VArr (filter (\<lambda>item. id_of item \<noteq> i) xs))"
    by (simp_all add: store_call_service store_set_state_pair store_set_state_single itemsKey_neq)
  then show ?thesis by blast
qed

lemma sample_filter_keeps: "filter_keeps (Some sample_filter) ''students''"
  by (simp add: filter_keeps_def sample_filter_def split: option.splits)

lemma sample_filter_returns: "filter_returns (Some sample_filter)"
  by (simp add: filter_returns_def sample_filter_def)

lemma returned_Some:
  "returned outcome = Some d \<longleftrightarrow>
     (\<exists>res. outcome = Inr res \<and> success res \<and> data res = Some d)"
  by (auto simp: returned_def split: sum.splits if_splits)

lemma length_filter_other_ids:
  "distinct (map id_of xs) \<Longrightarrow> i \<in> set (map id_of xs) \<Longrightarrow>
     Suc (length (filter (\<lambda>item. id_of item \<noteq> i) xs)) = length xs"
proof (induction xs)
  case Nil
  then show ?case by simp
next
  case (Cons x xs)
  show ?case
  proof (cases "id_of x = i")
    case True
    with Cons.prems have "i \<notin> set (map id_of xs)" by auto
    then have "filter (\<lambda>item. id_of item \<noteq> i) xs = xs"
      by (auto intro: filter_True)
    with True show ?thesis by simp
  next
    case False
    with Cons show ?thesis by auto
  qed
qed

lemmas store_eval =
  set_state_def call_service_def itemsKey_def runFilter_def Let_def collection_def
  count_id_def returned_def sample_hae_def sample_world_def sample_filter_def sample_ok_def
  sample_failed_def createErrorState_def handleActionError_def handleResultError_def

section \<open>Create, update and delete\<close>

text \<open>
  C2, as the code has it. The create action puts the record the server returned in
  front of the collection and looks at no identifier. When the collection held no
  record with that identifier before (and the store's filter function leaves the
  collection alone), then after a successful create the collection is the new record
  followed by the old ones: the new record is first, and it is the only one with its
  identifier.
\<close>

theorem create_prepends_fresh_record:
  assumes "createCreateAction hae now ff e outcome w = (True, w')"
    and "returned outcome = Some d"
    and "filter_keeps ff (itemsKey e)"
    and "collection e w = Some xs"
    and "count_id (id_of d) xs = 0"
  shows "collection e w' = Some (d # xs) \<and> count_id (id_of d) (d # xs) = 1"
proof -
  from create_success [OF assms(1) assms(3)] obtain res d' xs'
    where "outcome = Inr res" "success res" "data res = Some d'"
      and "store w (itemsKey e) = Some (VArr xs')"
      and "store w' (itemsKey e) = Some (VArr (d' # xs'))"
    by blast
  with assms(2) assms(4) have "collection e w' = Some (d # xs)"
    by (simp add: returned_def collection_def)
  with assms(5) show ?thesis by (simp add: count_id_def)
qed

theorem create_prepends_fresh_record_witness:
  "collection ''student''
     (snd (createCreateAction sample_hae 0 (Some sample_filter) ''student''
        (sample_ok \<lparr>id_of = ''b''\<rparr>) (sample_world [\<lparr>id_of = ''a''\<rparr>]))) =
     Some [\<lparr>id_of = ''b''\<rparr>, \<lparr>id_of = ''a''\<rparr>] \<and>
   count_id ''b'' [\<lparr>id_of = ''b''\<rparr>, \<lparr>id_of = ''a''\<rparr>] = 1"
proof -
  let ?A = "createCreateAction sample_hae 0 (Some sample_filter) ''student''
              (sample_ok \<lparr>id_of = ''b''\<rparr>) (sample_world [\<lparr>id_of = ''a''\<rparr>])"
  have "fst ?A"
    by (simp add: createCreateAction_def handleCreateSuccess_def store_eval)
  then have run: "?A = (True, snd ?A)"
    by (simp add: prod_eq_iff)
  have ret: "returned (sample_ok \<lparr>id_of = ''b''\<rparr>) = Some \<lparr>id_of = ''b''\<rparr>"
    by (simp add: store_eval)
  have keeps: "filter_keeps (Some sample_filter) (itemsKey ''student'')"
    using sample_filter_keeps by (simp add: itemsKey_def)
  have before: "collection ''student'' (sample_world [\<lparr>id_of = ''a''\<rparr>]) = Some [\<lparr>id_of = ''a''\<rparr>]"
    by (simp add: store_eval)
  have fresh: "count_id (id_of \<lparr>id_of = ''b''\<rparr>) [\<lparr>id_of = ''a''\<rparr>] = 0"
    by (simp add: store_eval)
  from create_prepends_fresh_record [OF run ret keeps before fresh]
  show ?thesis by simp
qed

text \<open>
  C2 as stated fails: on a collection that already holds a record with the identifier
  the server returns, the create action succeeds and leaves two records with it.
\<close>

theorem create_existing_id_counterexample:
  "fst (createCreateAction sample_hae 0 None ''student''
          (sample_ok \<lparr>id_of = ''a''\<rparr>) (sample_world [\<lparr>id_of = ''a''\<rparr>])) \<and>
   map_option (count_id ''a'')
     (collection ''student''
        (snd (createCreateAction sample_hae 0 None ''student''
           (sample_ok \<lparr>id_of = ''a''\<rparr>) (sample_world [\<lparr>id_of = ''a''\<rparr>])))) = Some 2"
  by (simp add: createCreateAction_def handleCreateSuccess_def store_eval)

text \<open>
  C7. After a successful update, and after a successful toggle, which ends in the same
  success helper, the collection is the old one with the server's record in the place
  of every record whose identifier is the given one: the length is the same, a
  position whose record has the identifier holds the server's record, and every other
  position holds the record it held. (The store's filter function is taken to leave
  the collection alone.)
\<close>

theorem update_and_toggle_replace_in_place:
  assumes "createUpdateAction hae now ff e i outcome w = (True, w') \<or>
           createToggleStatusAction hae now ff e i outcome w = (True, w')"
    and "returned outcome = Some d"
    and "filter_keeps ff (itemsKey e)"
    and "collection e w = Some xs"
  shows "collection e w' = Some (map (\<lambda>item. if id_of item = i then d else item) xs) \<and>
         (\<forall>k<length xs.
            map (\<lambda>item. if id_of item = i then d else item) xs ! k =
              (if id_of (xs ! k) = i then d else xs ! k))"
proof -
  from assms(1) update_success [OF _ assms(3)] toggle_success [OF _ assms(3)]
  obtain res d' xs'
    where "outcome = Inr res" "success res" "data res = Some d'"
      and "store w (itemsKey e) = Some (VArr xs')"
      and "store w' (itemsKey e) =
             Some (VArr (map (\<lambda>item. if id_of item = i then d' else item) xs'))"
    by blast
  with assms(2) assms(4)
  have "collection e w' = Some (map (\<lambda>item. if id_of item = i then d else item) xs)"
    by (simp add: returned_def collection_def)
  then show ?thesis by simp
qed

theorem update_and_toggle_replace_in_place_witness:
  "collection ''student''
     (snd (createUpdateAction sample_hae 0 (Some sample_filter) ''student'' ''s1''
        (sample_ok \<lparr>id_of = ''s1'', \<dots> = True\<rparr>)
        (sample_world [\<lparr>id_of = ''s0'', \<dots> = True\<rparr>, \<lparr>id_of = ''s1'', \<dots> = False\<rparr>]))) =
     Some [\<lparr>id_of = ''s0'', \<dots> = True\<rparr>, \<lparr>id_of = ''s1'', \<dots> = True\<rparr>] \<and>
   collection ''student''
     (snd (createToggleStatusAction sample_hae 0 (Some sample_filter) ''student'' ''s1''
        (sample_ok \<lparr>id_of = ''s1'', \<dots> = True\<rparr>)
        (sample_world [\<lparr>id_of = ''s0'', \<dots> = True\<rparr>, \<lparr>id_of = ''s1'', \<dots> = False\<rparr>]))) =
     Some [\<lparr>id_of = ''s0'', \<dots> = True\<rparr>, \<lparr>id_of = ''s1'', \<dots> = True\<rparr>]"
proof -
  let ?U = "createUpdateAction sample_hae 0 (Some sample_filter) ''student'' ''s1''
        (sample_ok \<lparr>id_of = ''s1'', \<dots> = True\<rparr>)
        (sample_world [\<lparr>id_of = ''s0'', \<dots> = True\<rparr>, \<lparr>id_of = ''s1'', \<dots> = False\<rparr>])"
  let ?T = "createToggleStatusAction sample_hae 0 (Some sample_filter) ''student'' ''s1''
        (sample_ok \<lparr>id_of = ''s1'', \<dots> = True\<rparr>)
        (sample_world [\<lparr>id_of = ''s0'', \<dots> = True\<rparr>, \<lparr>id_of = ''s1'', \<dots> = False\<rparr>])"
  have "fst ?U"
    by (simp add: createUpdateAction_def handleUpdateSuccess_def store_eval)
  then have run_update: "?U = (True, snd ?U)"
    by (simp add: prod_eq_iff)
  have "fst ?T"
    by (simp add: createToggleStatusAction_def handleUpdateSuccess_def store_eval)
  then have run_toggle: "?T = (True, snd ?T)"
    by (simp add: prod_eq_iff)
  have ret: "returned (sample_ok \<lparr>id_of = ''s1'', \<dots> = True\<rparr>) = Some \<lparr>id_of = ''s1'', \<dots> = True\<rparr>"
    by (simp add: store_eval)
  have keeps: "filter_keeps (Some sample_filter) (itemsKey ''student'')"
    using sample_filter_keeps by (simp add: itemsKey_def)
  have before:
    "collection ''student''
       (sample_world [\<lparr>id_of = ''s0'', \<dots> = True\<rparr>, \<lparr>id_of = ''s1'', \<dots> = False\<rparr>]) =
     Some [\<lparr>id_of = ''s0'', \<dots> = True\<rparr>, \<lparr>id_of = ''s1'', \<dots> = False\<rparr>]"
    by (simp add: store_eval)
  from update_and_toggle_replace_in_place [OF disjI1 [OF run_update] ret keeps before]
    update_and_toggle_replace_in_place [OF disjI2 [OF run_toggle] ret keeps before]
  show ?thesis by simp
qed

text \<open>
  C8. After a successful delete the collection is the old one without the records
  that carry the given identifier, the others in their order; no record with the
  identifier remains; and when the identifiers were distinct and the given one was
  among them, the collection is shorter by exactly one. (The store's filter function
  is taken to leave the collection alone.)
\<close>

theorem delete_removes_record:
  assumes "createDeleteAction hae now ff e i outcome w = (True, w')"
    and "filter_keeps ff (itemsKey e)"
    and "collection e w = Some xs"
  shows "collection e w' = Some (filter (\<lambda>item. id_of item \<noteq> i) xs) \<and>
         count_id i (filter (\<lambda>item. id_of item \<noteq> i) xs) = 0 \<and>
         (distinct (map id_of xs) \<and> i \<in> set (map id_of xs) \<longrightarrow>
            Suc (length (filter (\<lambda>item. id_of item \<noteq> i) xs)) = length xs)"
proof -
  from delete_success [OF assms(1) assms(2)] obtain xs'
    where "store w (itemsKey e) = Some (VArr xs')"
      and "store w' (itemsKey e) = Some (VArr (filter (\<lambda>item. id_of item \<noteq> i) xs'))"
    by blast
  with assms(3) have "collection e w' = Some (filter (\<lambda>item. id_of item \<noteq> i) xs)"
    by (simp add: collection_def)
  moreover have "count_id i (filter (\<lambda>item. id_of item \<noteq> i) xs) = 0"
    by (simp add: count_id_def)
  ultimately show ?thesis
    using length_filter_other_ids [of xs i] by blast
qed

theorem delete_removes_record_witness:
  "collection ''student''
     (snd (createDeleteAction sample_hae 0 (Some sample_filter) ''student'' ''b''
        (Inr \<lparr>success = True, data = None, error = None\<rparr>)
        (sample_world [\<lparr>id_of = ''a''\<rparr>, \<lparr>id_of = ''b''\<rparr>, \<lparr>id_of = ''c''\<rparr>]))) =
     Some [\<lparr>id_of = ''a''\<rparr>, \<lparr>id_of = ''c''\<rparr>] \<and>
   Suc (length [\<lparr>id_of = ''a''\<rparr>, \<lparr>id_of = ''c''\<rparr>]) =
     length [\<lparr>id_of = ''a''\<rparr>, \<lparr>id_of = ''b''\<rparr>, \<lparr>id_of = ''c''\<rparr>]"
proof -
  let ?A = "createDeleteAction sample_hae 0 (Some sample_filter) ''student'' ''b''
        (Inr \<lparr>success = True, data = None, error = None\<rparr>)
        (sample_world [\<lparr>id_of = ''a''\<rparr>, \<lparr>id_of = ''b''\<rparr>, \<lparr>id_of = ''c''\<rparr>])"
  have "fst ?A"
    by (simp add: createDeleteAction_def handleDeleteSuccess_def store_eval)
  then have run: "?A = (True, snd ?A)"
    by (simp add: prod_eq_iff)
  have keeps: "filter_keeps (Some sample_filter) (itemsKey ''student'')"
    using sample_filter_keeps by (simp add: itemsKey_def)
  have before:
    "collection ''student''
       (sample_world [\<lparr>id_of = ''a''\<rparr>, \<lparr>id_of = ''b''\<rparr>, \<lparr>id_of = ''c''\<rparr>]) =
     Some [\<lparr>id_of = ''a''\<rparr>, \<lparr>id_of = ''b''\<rparr>, \<lparr>id_of = ''c''\<rparr>]"
    by (simp add: store_eval)
  from delete_removes_record [OF run keeps before]
  show ?thesis by simp
qed

lemma filteredKey_neq:
  "filteredKey e \<noteq> ''lastError''" "filteredKey e \<noteq> ''loading''"
  "filteredKey e \<noteq> ''lastSemesterId''" "filteredKey e \<noteq> ''students''"
  by (simp_all add: filteredKey_def)

lemma emptyDataError_iff:
  "emptyDataError err \<longleftrightarrow>
     statusCode err = 409 \<and>
     (includes_str (message err) ''NotYet'' \<or> includes_str (message err) ''End'' \<or>
      includes_str (message err) ''semesters allow student enrollment'')"
  by (cases "message err") (auto simp: emptyDataError_def)

lemma fetchBySemester_remembered:
  assumes called: "force \<or> \<not> cachedFor p w"
    and ret: "filter_returns ff"
    and ok: "returned outcome = Some ds \<or>
             (ds = [] \<and> returned outcome = None \<and>
              (\<exists>res err. outcome = Inr res \<and> error res = Some err \<and> emptyDataError err))"
  shows "createFetchBySemesterAction hae now ff e p force outcome w =
           set_state [(''loading'', VBool False)]
             (set_state [(''lastSemesterId'', VStr p)]
                (snd (runFilter ff
                        (set_state [(itemsKey e, VArr ds), (filteredKey e, VArr ds)]
                           (call_service
                              (set_state [(''loading'', VBool True), (''lastError'', VNull)]
                                 w))))))"
proof -
  let ?w1 = "call_service (set_state [(''loading'', VBool True), (''lastError'', VNull)] w)"
  let ?X = "set_state [(itemsKey e, VArr ds), (filteredKey e, VArr ds)] ?w1"
  obtain w2 where rf: "runFilter ff ?X = (None, w2)"
    using runFilter_returns [OF ret, of ?X] by (cases "runFilter ff ?X") auto
  from ok show ?thesis
  proof
    assume "returned outcome = Some ds"
    then obtain res where "outcome = Inr res" "success res" "data res = Some ds"
      by (auto simp: returned_Some)
    with called rf show ?thesis
      by (auto simp: createFetchBySemesterAction_def handleFetchSuccess_def Let_def)
  next
    assume "ds = [] \<and> returned outcome = None \<and>
              (\<exists>res err. outcome = Inr res \<and> error res = Some err \<and> emptyDataError err)"
    then obtain res err where "ds = []" "outcome = Inr res" "error res = Some err"
      "emptyDataError err" "(if success res then data res else None) = None"
      by (auto simp: returned_def)
    with called rf show ?thesis
      by (auto simp: createFetchBySemesterAction_def handleFetchSuccess_def Let_def)
  qed
qed

lemma fetchBySemester_error:
  assumes "force \<or> \<not> cachedFor p w"
    and "returned (Inr res) = None" and "error res = Some err" and "\<not> emptyDataError err"
  shows "createFetchBySemesterAction hae now ff e p force (Inr res) w =
           set_state [(''loading'', VBool False)]
             (handleResultError now err
                (call_service
                   (set_state [(''loading'', VBool True), (''lastError'', VNull)] w)))"
  using assms
  by (auto simp: createFetchBySemesterAction_def Let_def returned_def)

lemma sample_filter_keeps_lastError: "filter_keeps (Some sample_filter) ''lastError''"
  by (simp add: filter_keeps_def sample_filter_def split: option.splits)

lemma calls_fetchBySemester_called:
  assumes "force \<or> \<not> cachedFor p w"
  shows "calls (createFetchBySemesterAction hae now ff e p force outcome w) = Suc (calls w)"
  using assms
  by (auto simp: createFetchBySemesterAction_def handleFetchSuccess_def Let_def split_def
      handleActionError_def handleResultError_def calls_set_state calls_runFilter
      calls_call_service split: sum.splits option.splits)

lemma fetchBySemester_failed_keeps_cache_fields:
  assumes "returned outcome = None"
    and "\<not> (\<exists>res err. outcome = Inr res \<and> error res = Some err \<and> emptyDataError err)"
  shows "store (createFetchBySemesterAction hae now ff e p force outcome w) ''students'' =
           store w ''students'' \<and>
         store (createFetchBySemesterAction hae now ff e p force outcome w) ''lastSemesterId'' =
           store w ''lastSemesterId''"
  using assms
  by (auto simp: createFetchBySemesterAction_def returned_def Let_def handleActionError_def
      handleResultError_def store_set_state_single store_set_state_pair store_call_service
      split: sum.splits option.splits if_splits)

section \<open>Fetch by semester\<close>

text \<open>
  C4. Take a fetch by semester that reaches the service and whose normalized result is
  an error. When the error has status 409 and its message contains one of the
  recognized patterns (\<^verbatim>\<open>NotYet\<close>, \<^verbatim>\<open>End\<close>, \<^verbatim>\<open>semesters allow student enrollment\<close>),
  the action ends with an empty collection, the requested semester remembered and
  \<^verbatim>\<open>lastError\<close> null. Every other error is written to \<^verbatim>\<open>lastError\<close>. (The store's filter
  function is taken to return normally and to leave the collection and \<^verbatim>\<open>lastError\<close>
  alone.)
\<close>

theorem fetchBySemester_conflict_downgrade:
  assumes "force \<or> \<not> cachedFor p w"
    and "returned (Inr res) = None" and "error res = Some err"
    and "filter_returns ff" and "filter_keeps ff (itemsKey e)"
    and "filter_keeps ff ''lastError''"
  shows "if statusCode err = 409 \<and>
            (includes_str (message err) ''NotYet'' \<or> includes_str (message err) ''End'' \<or>
             includes_str (message err) ''semesters allow student enrollment'')
         then collection e (createFetchBySemesterAction hae now ff e p force (Inr res) w) =
                Some [] \<and>
              store (createFetchBySemesterAction hae now ff e p force (Inr res) w)
                ''lastSemesterId'' = Some (VStr p) \<and>
              store (createFetchBySemesterAction hae now ff e p force (Inr res) w)
                ''lastError'' = Some VNull
         else store (createFetchBySemesterAction hae now ff e p force (Inr res) w)
                ''lastError'' = Some (VErr (createErrorState err now))"
proof (cases "emptyDataError err")
  case True
  let ?w1 = "call_service (set_state [(''loading'', VBool True), (''lastError'', VNull)] w)"
  let ?X = "set_state [(itemsKey e, VArr []), (filteredKey e, VArr [])] ?w1"
  have eq: "createFetchBySemesterAction hae now ff e p force (Inr res) w =
              set_state [(''loading'', VBool False)]
                (set_state [(''lastSemesterId'', VStr p)] (snd (runFilter ff ?X)))"
    using assms(2) assms(3) True
    by (intro fetchBySemester_remembered [OF assms(1) assms(4)]) auto
  have items: "store (snd (runFilter ff ?X)) (itemsKey e) = Some (VArr [])"
    by (simp add: runFilter_keeps [OF assms(5)] store_set_state_pair)
  have err: "store (snd (runFilter ff ?X)) ''lastError'' = Some VNull"
    using itemsKey_neq(4) [of e] filteredKey_neq(1) [of e]
    by (simp add: runFilter_keeps [OF assms(6)] store_set_state_pair store_call_service)
  from items err True show ?thesis
    using itemsKey_neq [of e]
    by (simp add: eq collection_def store_set_state_single emptyDataError_iff)
next
  case False
  from fetchBySemester_error [OF assms(1) assms(2) assms(3) False] False show ?thesis
    by (simp add: store_set_state_single store_handleResultError emptyDataError_iff)
qed

theorem fetchBySemester_conflict_downgrade_witness:
  "collection ''student''
     (createFetchBySemesterAction sample_hae 7 (Some sample_filter) ''student'' ''sem-1'' False
        (sample_failed 409 ''Semester is NotYet open'') (sample_world [\<lparr>id_of = ''a''\<rparr>])) =
     Some [] \<and>
   store
     (createFetchBySemesterAction sample_hae 7 (Some sample_filter) ''student'' ''sem-1'' False
        (sample_failed 409 ''Semester is NotYet open'') (sample_world [\<lparr>id_of = ''a''\<rparr>]))
     ''lastSemesterId'' = Some (VStr ''sem-1'') \<and>
   store
     (createFetchBySemesterAction sample_hae 7 (Some sample_filter) ''student'' ''sem-1'' False
        (sample_failed 409 ''Semester is NotYet open'') (sample_world [\<lparr>id_of = ''a''\<rparr>]))
     ''lastError'' = Some VNull \<and>
   store
     (createFetchBySemesterAction sample_hae 7 (Some sample_filter) ''student'' ''sem-1'' False
        (sample_failed 409 ''Duplicate entry'') (sample_world [\<lparr>id_of = ''a''\<rparr>]))
     ''lastError'' = Some (VErr \<lparr>message = ''Duplicate entry'', statusCode = 409, timestamp = 7\<rparr>)"
proof -
  have called: "False \<or> \<not> cachedFor ''sem-1'' (sample_world [\<lparr>id_of = ''a''\<rparr>])"
    by (simp add: cachedFor_def sample_world_def)
  have keeps: "filter_keeps (Some sample_filter) (itemsKey ''student'')"
    using sample_filter_keeps by (simp add: itemsKey_def)
  have r1: "returned (Inr \<lparr>success = False, data = None,
              error = Some \<lparr>message = ''Semester is NotYet open'', statusCode = 409\<rparr>\<rparr>
              :: entity list outcome) = None"
    by (simp add: returned_def)
  have r2: "returned (Inr \<lparr>success = False, data = None,
              error = Some \<lparr>message = ''Duplicate entry'', statusCode = 409\<rparr>\<rparr>
              :: entity list outcome) = None"
    by (simp add: returned_def)
  from fetchBySemester_conflict_downgrade
         [OF called r1 _ sample_filter_returns keeps sample_filter_keeps_lastError,
          of "\<lparr>message = ''Semester is NotYet open'', statusCode = 409\<rparr>" sample_hae 7]
       fetchBySemester_conflict_downgrade
         [OF called r2 _ sample_filter_returns keeps sample_filter_keeps_lastError,
          of "\<lparr>message = ''Duplicate entry'', statusCode = 409\<rparr>" sample_hae 7]
  show ?thesis
    by (simp add: sample_failed_def createErrorState_def)
qed

lemma fetchBySemester_cached_after_success:
  assumes "returned outcome1 \<noteq> None \<or>
           (\<exists>res err. outcome1 = Inr res \<and> error res = Some err \<and> emptyDataError err)"
    and "filter_returns ff" and "filter_keeps ff ''students''"
  shows "createFetchBySemesterAction hae now2 ff ''student'' p False outcome2
           (createFetchBySemesterAction hae now1 ff ''student'' p False outcome1 w) =
         createFetchBySemesterAction hae now1 ff ''student'' p False outcome1 w \<and>
         calls (createFetchBySemesterAction hae now1 ff ''student'' p False outcome1 w) =
           (if cachedFor p w then calls w else Suc (calls w))"
proof (cases "cachedFor p w")
  case True
  then show ?thesis by (simp add: createFetchBySemesterAction_def)
next
  case False
  let ?F = "createFetchBySemesterAction hae now1 ff ''student'' p False outcome1 w"
  let ?w1 = "call_service (set_state [(''loading'', VBool True), (''lastError'', VNull)] w)"
  from assms(1) obtain ds where
    ok: "returned outcome1 = Some ds \<or>
         (ds = [] \<and> returned outcome1 = None \<and>
          (\<exists>res err. outcome1 = Inr res \<and> error res = Some err \<and> emptyDataError err))"
    by (cases "returned outcome1") auto
  let ?X = "set_state [(itemsKey ''student'', VArr ds), (filteredKey ''student'', VArr ds)] ?w1"
  have eq: "?F = set_state [(''loading'', VBool False)]
                   (set_state [(''lastSemesterId'', VStr p)] (snd (runFilter ff ?X)))"
    using False by (intro fetchBySemester_remembered [OF _ assms(2) ok]) simp
  have "store (snd (runFilter ff ?X)) ''students'' = Some (VArr ds)"
    using filteredKey_neq(4) [of "''student''"]
    by (simp add: runFilter_keeps [OF assms(3)] store_set_state_pair itemsKey_def)
  then have cached: "cachedFor p ?F"
    by (simp add: eq cachedFor_def store_set_state_single)
  have n: "calls ?F = Suc (calls w)"
    by (simp add: eq calls_set_state calls_runFilter calls_call_service)
  have "createFetchBySemesterAction hae now2 ff ''student'' p False outcome2 ?F = ?F"
    using cached by (simp add: createFetchBySemesterAction_def)
  with n False show ?thesis by simp
qed

text \<open>
  C3, as the code has it. The cache test reads the field \<^verbatim>\<open>students\<close> and the
  remembered semester, and the semester is remembered only when a fetch ends in
  success or in the downgraded conflict. So for the store of students: when the first
  call ends that way, a second call for the same semester without \<^verbatim>\<open>force\<close> returns the
  state as it is and calls no service, whatever the service would answer; the first
  call reaches the service once unless the semester was cached already. When the
  semester was not cached and the first call ends in any other way (an ordinary
  error, a thrown exception, a result with neither data nor error), the semester is
  still not cached afterwards and the second call reaches the service again: two
  calls in all. (The store's filter function is taken to return normally and to leave
  \<^verbatim>\<open>students\<close> alone.)
\<close>

theorem fetchBySemester_second_call_is_cached:
  assumes "returned outcome1 \<noteq> None \<or>
           (\<exists>res err. outcome1 = Inr res \<and> error res = Some err \<and> emptyDataError err)"
    and "filter_returns ff" and "filter_keeps ff ''students''"
  shows "createFetchBySemesterAction hae now2 ff ''student'' p False outcome2
           (createFetchBySemesterAction hae now1 ff ''student'' p False outcome1 w) =
         createFetchBySemesterAction hae now1 ff ''student'' p False outcome1 w \<and>
         calls (createFetchBySemesterAction hae now1 ff ''student'' p False outcome1 w) =
           (if cachedFor p w then calls w else Suc (calls w)) \<and>
         (\<not> cachedFor p w \<and> returned failed = None \<and>
          \<not> (\<exists>res err. failed = Inr res \<and> error res = Some err \<and> emptyDataError err) \<longrightarrow>
            \<not> cachedFor p
                (createFetchBySemesterAction hae now1 ff ''student'' p False failed w) \<and>
            calls
              (createFetchBySemesterAction hae now2 ff ''student'' p False outcome2
                 (createFetchBySemesterAction hae now1 ff ''student'' p False failed w)) =
              Suc (Suc (calls w)))"
proof -
  have pos: "createFetchBySemesterAction hae now2 ff ''student'' p False outcome2
           (createFetchBySemesterAction hae now1 ff ''student'' p False outcome1 w) =
         createFetchBySemesterAction hae now1 ff ''student'' p False outcome1 w \<and>
         calls (createFetchBySemesterAction hae now1 ff ''student'' p False outcome1 w) =
           (if cachedFor p w then calls w else Suc (calls w))"
    using fetchBySemester_cached_after_success [OF assms] .
  have neg: "\<not> cachedFor p
                (createFetchBySemesterAction hae now1 ff ''student'' p False failed w) \<and>
            calls
              (createFetchBySemesterAction hae now2 ff ''student'' p False outcome2
                 (createFetchBySemesterAction hae now1 ff ''student'' p False failed w)) =
              Suc (Suc (calls w))"
    if nc: "\<not> cachedFor p w" and r: "returned failed = None"
      and e: "\<not> (\<exists>res err. failed = Inr res \<and> error res = Some err \<and> emptyDataError err)"
  proof -
    let ?F = "createFetchBySemesterAction hae now1 ff ''student'' p False failed w"
    from fetchBySemester_failed_keeps_cache_fields [OF r e, of hae now1 ff "''student''" p False w]
      nc
    have nc': "\<not> cachedFor p ?F" by (simp add: cachedFor_def)
    from nc have "calls ?F = Suc (calls w)"
      by (simp add: calls_fetchBySemester_called)
    moreover from nc'
    have "calls (createFetchBySemesterAction hae now2 ff ''student'' p False outcome2 ?F) =
            Suc (calls ?F)"
      by (simp add: calls_fetchBySemester_called)
    ultimately show ?thesis using nc' by simp
  qed
  from pos neg show ?thesis by blast
qed

theorem fetchBySemester_second_call_is_cached_witness:
  "calls
     (createFetchBySemesterAction sample_hae 1 (Some sample_filter) ''student'' ''sem-1'' False
        (sample_failed 500 ''Internal server error'')
        (createFetchBySemesterAction sample_hae 0 (Some sample_filter) ''student'' ''sem-1''
           False (sample_ok [\<lparr>id_of = ''a''\<rparr>]) (sample_world []))) = 1 \<and>
   calls
     (createFetchBySemesterAction sample_hae 1 (Some sample_filter) ''student'' ''sem-1'' False
        (sample_failed 500 ''Internal server error'')
        (createFetchBySemesterAction sample_hae 0 (Some sample_filter) ''student'' ''sem-1''
           False (Inl (Thrown ''Network Error'')) (sample_world ([] :: entity list)))) = 2"
proof -
  have ok: "returned (sample_ok [\<lparr>id_of = ''a''\<rparr>]) \<noteq> None \<or>
            (\<exists>res err. sample_ok [\<lparr>id_of = ''a''\<rparr>] = Inr res \<and> error res = Some err \<and>
               emptyDataError err)"
    by (simp add: returned_def sample_ok_def)
  have fresh: "\<not> cachedFor ''sem-1'' (sample_world ([] :: entity list))"
    by (simp add: cachedFor_def sample_world_def)
  have thrown: "returned (Inl (Thrown ''Network Error'') :: entity list outcome) = None \<and>
                \<not> (\<exists>res err. (Inl (Thrown ''Network Error'') :: entity list outcome) = Inr res \<and>
                     error res = Some err \<and> emptyDataError err)"
    by (simp add: returned_def)
  from fetchBySemester_second_call_is_cached [OF ok sample_filter_returns sample_filter_keeps,
      where hae = sample_hae and ?now2.0 = 1 and p = "''sem-1''"
        and ?outcome2.0 = "sample_failed 500 ''Internal server error''" and ?now1.0 = 0
        and w = "sample_world []" and failed = "Inl (Thrown ''Network Error'')"]
    fresh thrown
  show ?thesis by (simp add: sample_world_def)
qed

text \<open>
  C3 as stated fails in two ways. A first call that ends in an ordinary error does not
  remember the semester, so the second call reaches the service again; and for an
  entity other than the student the cache test finds no field \<^verbatim>\<open>students\<close>, so every
  call reaches the service, also after a success.
\<close>

theorem fetchBySemester_refetch_counterexample:
  "calls
     (createFetchBySemesterAction sample_hae 1 None ''student'' ''sem-1'' False
        (sample_ok [\<lparr>id_of = ''a''\<rparr>])
        (createFetchBySemesterAction sample_hae 0 None ''student'' ''sem-1'' False
           (sample_failed 500 ''Internal server error'') (sample_world []))) = 2 \<and>
   calls
     (createFetchBySemesterAction sample_hae 1 None ''lecturer'' ''sem-1'' False
        (sample_ok [\<lparr>id_of = ''a''\<rparr>])
        (createFetchBySemesterAction sample_hae 0 None ''lecturer'' ''sem-1'' False
           (sample_ok [\<lparr>id_of = ''a''\<rparr>])
           \<lparr>store = [''lecturers'' \<mapsto> VArr []], calls = 0\<rparr>)) = 2"
  by (simp add: createFetchBySemesterAction_def handleFetchSuccess_def cachedFor_def
      emptyDataError_def filteredKey_def store_eval)

section \<open>Busy-flags\<close>

text \<open>
  C9. Whatever the service call ends in (data, a normalized error, neither, or a
  thrown value) and whatever the store's filter function does, each generated action
  ends with its busy-flag false: \<^verbatim>\<open>creating\<close>, both \<^verbatim>\<open>creatingMany\<close> flags, \<^verbatim>\<open>updating\<close>,
  \<^verbatim>\<open>deleting\<close>, \<^verbatim>\<open>togglingStatus\<close> and \<^verbatim>\<open>loading\<close>. The fetch by semester that finds
  its semester cached returns at once: it sets no flag and leaves the state as it is.
\<close>

theorem busy_flags_cleared:
  "store (snd (createCreateAction hae now ff e out_one w)) ''creating'' = Some (VBool False) \<and>
   store (snd (createBatchCreateAction hae now ff e out_many w)) ''creatingMany'' =
     Some (VBool False) \<and>
   store (snd (createBatchCreateAction hae now ff e out_many w)) (creatingManyKey e) =
     Some (VBool False) \<and>
   store (snd (createUpdateAction hae now ff e i out_one w)) ''updating'' = Some (VBool False) \<and>
   store (snd (createDeleteAction hae now ff e i out_none w)) ''deleting'' = Some (VBool False) \<and>
   store (snd (createToggleStatusAction hae now ff e i out_one w)) ''togglingStatus'' =
     Some (VBool False) \<and>
   store (createFetchAction hae now ff e out_many w) ''loading'' = Some (VBool False) \<and>
   (if \<not> force \<and> cachedFor p w
    then createFetchBySemesterAction hae now ff e p force out_many w = w
    else store (createFetchBySemesterAction hae now ff e p force out_many w) ''loading'' =
           Some (VBool False))"
proof -
  have "store (snd (createCreateAction hae now ff e out_one w)) ''creating'' = Some (VBool False)"
    by (simp add: createCreateAction_def Let_def split_def store_set_state_single)
  moreover
  have "store (snd (createBatchCreateAction hae now ff e out_many w)) ''creatingMany'' =
          Some (VBool False)"
    by (simp add: createBatchCreateAction_def Let_def split_def store_set_state_pair)
  moreover
  have "store (snd (createBatchCreateAction hae now ff e out_many w)) (creatingManyKey e) =
          Some (VBool False)"
    by (simp add: createBatchCreateAction_def Let_def split_def store_set_state_pair)
  moreover
  have "store (snd (createUpdateAction hae now ff e i out_one w)) ''updating'' =
          Some (VBool False)"
    by (simp add: createUpdateAction_def Let_def split_def store_set_state_single)
  moreover
  have "store (snd (createDeleteAction hae now ff e i out_none w)) ''deleting'' =
          Some (VBool False)"
    by (simp add: createDeleteAction_def Let_def split_def store_set_state_single)
  moreover
  have "store (snd (createToggleStatusAction hae now ff e i out_one w)) ''togglingStatus'' =
          Some (VBool False)"
    by (simp add: createToggleStatusAction_def Let_def split_def store_set_state_single)
  moreover
  have "store (createFetchAction hae now ff e out_many w) ''loading'' = Some (VBool False)"
    by (simp add: createFetchAction_def Let_def store_set_state_single)
  moreover
  have "if \<not> force \<and> cachedFor p w
        then createFetchBySemesterAction hae now ff e p force out_many w = w
        else store (createFetchBySemesterAction hae now ff e p force out_many w) ''loading'' =
               Some (VBool False)"
    by (simp add: createFetchBySemesterAction_def Let_def store_set_state_single)
  ultimately show ?thesis by blast
qed

theorem busy_flags_cleared_witness:
  "store
     (snd (createDeleteAction sample_hae 0 (Some sample_filter) ''student'' ''a''
        (Inl (Thrown ''Network Error'')) (sample_world [\<lparr>id_of = ''a''\<rparr>])))
     ''deleting'' = Some (VBool False) \<and>
   store
     (createFetchBySemesterAction sample_hae 0 (Some sample_filter) ''student'' ''sem-1'' False
        (sample_failed 500 ''Internal server error'') (sample_world [\<lparr>id_of = ''a''\<rparr>]))
     ''loading'' = Some (VBool False)"
  using busy_flags_cleared
    [of sample_hae 0 "Some sample_filter" "''student''" _ "sample_world [\<lparr>id_of = ''a''\<rparr>]" _
      "''a''" "Inl (Thrown ''Network Error'')" False "''sem-1''"]
    busy_flags_cleared
    [of sample_hae 0 "Some sample_filter" "''student''" _ "sample_world [\<lparr>id_of = ''a''\<rparr>]"
      "sample_failed 500 ''Internal server error''" _ _ False "''sem-1''"]
  by (simp add: cachedFor_def sample_world_def)

lemma handler_retried:
  "retry c = Some True \<Longrightarrow>
     createResponseErrorHandler refresh \<lparr>config = Some c, status = st\<rparr> sess =
       (Reject \<lparr>config = Some c, status = st\<rparr>, sess)"
  by (simp add: createResponseErrorHandler_def)

lemma httpClient_retried:
  assumes "retry cfg = Some True"
  shows "fst (snd (httpClient server tokenAt refreshAt n cfg sess)) = Suc n \<and>
         (\<forall>st. server n (createRequestInterceptor (tokenAt n) cfg) = Inl st \<longrightarrow>
            is_rejection (fst (httpClient server tokenAt refreshAt n cfg sess)))"
proof -
  let ?sent = "createRequestInterceptor (tokenAt n) cfg"
  from assms have r: "retry ?sent = Some True" by (simp add: interceptor_retry)
  show ?thesis
  proof (cases "server n ?sent")
    case (Inl st)
    with handler_retried [OF r, of "refreshAt n" st sess] show ?thesis
      by (simp add: httpClient.simps [of server tokenAt refreshAt n cfg sess])
  next
    case (Inr response)
    then show ?thesis
      by (simp add: httpClient.simps [of server tokenAt refreshAt n cfg sess])
  qed
qed

lemma httpClient_sends:
  "fst (snd (httpClient server tokenAt refreshAt n cfg sess)) \<le> n + 2"
proof -
  let ?sent = "createRequestInterceptor (tokenAt n) cfg"
  show ?thesis
  proof (cases "server n ?sent")
    case (Inr response)
    then show ?thesis
      by (simp add: httpClient.simps [of server tokenAt refreshAt n cfg sess])
  next
    case (Inl st)
    obtain h sess' where h:
      "createResponseErrorHandler (refreshAt n) \<lparr>config = Some ?sent, status = st\<rparr> sess =
         (h, sess')"
      by (cases "createResponseErrorHandler (refreshAt n) \<lparr>config = Some ?sent, status = st\<rparr> sess")
    show ?thesis
    proof (cases h)
      case (Reissue again)
      with h have "retry again = Some True" by (auto dest: handler_reissue)
      from httpClient_retried [OF this, of server tokenAt refreshAt "Suc n" sess'] Inl h Reissue
      show ?thesis
        by (simp add: httpClient.simps [of server tokenAt refreshAt n cfg sess])
    qed (use Inl h in \<open>simp_all add: httpClient.simps [of server tokenAt refreshAt n cfg sess]\<close>)
  qed
qed

lemma httpClient_always_401:
  assumes "\<forall>k c. server k c = Inl (Some 401)"
  shows "is_rejection (fst (httpClient server tokenAt refreshAt n cfg sess))"
proof -
  let ?sent = "createRequestInterceptor (tokenAt n) cfg"
  from assms have s: "server n ?sent = Inl (Some 401)" by simp
  obtain h sess' where h:
    "createResponseErrorHandler (refreshAt n) \<lparr>config = Some ?sent, status = Some 401\<rparr> sess =
       (h, sess')"
    by (cases "createResponseErrorHandler (refreshAt n)
                 \<lparr>config = Some ?sent, status = Some 401\<rparr> sess")
  show ?thesis
  proof (cases h)
    case (Reissue again)
    with h have "retry again = Some True" by (auto dest: handler_reissue)
    from httpClient_retried [OF this, of server tokenAt refreshAt "Suc n" sess'] assms s h Reissue
    show ?thesis
      by (simp add: httpClient.simps [of server tokenAt refreshAt n cfg sess])
  qed (use s h in \<open>simp_all add: httpClient.simps [of server tokenAt refreshAt n cfg sess]\<close>)
qed

section \<open>The interceptors\<close>

text \<open>
  C5. A request to one of the authentication endpoints is returned as it is. Any other
  request gets the header \<^verbatim>\<open>Authorization: Bearer <token>\<close> when the token manager
  yields a token, with its other headers, its address and its retry mark unchanged; when
  the token manager throws or yields no token, the request is returned as it is. The
  interceptor returns a request in every case: it never fails.
\<close>

theorem request_interceptor_attaches_credential:
  "(isAuthEndpoint cfg \<longrightarrow> createRequestInterceptor tokenOutcome cfg = cfg) \<and>
   (\<not> isAuthEndpoint cfg \<and> tokenOutcome = Inr (Some t) \<and> t \<noteq> [] \<longrightarrow>
      createRequestInterceptor tokenOutcome cfg =
        cfg\<lparr>headers :=
              Some ((case headers cfg of None \<Rightarrow> Map.empty | Some h \<Rightarrow> h)
                      (''Authorization'' \<mapsto> ''Bearer '' @ t))\<rparr>) \<and>
   (\<not> isAuthEndpoint cfg \<and>
    (tokenOutcome = Inl x \<or> tokenOutcome = Inr None \<or> tokenOutcome = Inr (Some [])) \<longrightarrow>
      createRequestInterceptor tokenOutcome cfg = cfg)"
  by (auto simp: createRequestInterceptor_def setAuthorization_def)

theorem request_interceptor_attaches_credential_witness:
  "createRequestInterceptor (Inr (Some ''t0'')) (sample_request ''/auth/user/login'') =
     sample_request ''/auth/user/login'' \<and>
   createRequestInterceptor (Inr (Some ''t0'')) (sample_request ''/students'') =
     \<lparr>url = Some ''/students'', headers = Some [''Authorization'' \<mapsto> ''Bearer t0''],
      retry = None\<rparr> \<and>
   createRequestInterceptor (Inl (Thrown ''refresh failed'')) (sample_request ''/students'') =
     sample_request ''/students''"
proof -
  have a: "isAuthEndpoint (sample_request ''/auth/user/login'')"
    by (simp add: isAuthEndpoint_def authEndpoints_def sample_request_def)
  have b: "\<not> isAuthEndpoint (sample_request ''/students'')"
    by (simp add: isAuthEndpoint_def authEndpoints_def sample_request_def)
  from a b
    request_interceptor_attaches_credential
      [of "sample_request ''/auth/user/login''" "Inr (Some ''t0'')"]
    request_interceptor_attaches_credential
      [of "sample_request ''/students''" "Inr (Some ''t0'')" "''t0''"]
    request_interceptor_attaches_credential
      [of "sample_request ''/students''" "Inl (Thrown ''refresh failed'')" _
        "Thrown ''refresh failed''"]
  show ?thesis
    by (simp add: sample_request_def)
qed

text \<open>
  C6, as the code has it. Take a failure with status 401 on a request that is not for
  an authentication endpoint and is not marked as retried. When the refresh yields a
  token, the handler reissues the request, marked as retried and carrying the token as
  its bearer credential, and the client returns what the reissued request ends in.
  When the refresh yields no token, the stored credentials are cleared, the location
  becomes the login page where a window exists (and nothing is redirected where none
  does), and the handler rejects with the failure it was given, whose request is now
  marked as retried.
\<close>

theorem unauthorized_refresh_reissue_or_logout:
  assumes "config err = Some c" and "status err = Some 401"
    and "retry c \<noteq> Some True" and "\<not> isAuthEndpoint c"
  shows "(refresh = Inr (Some t) \<and> t \<noteq> [] \<longrightarrow>
            createResponseErrorHandler refresh err sess =
              (Reissue (setAuthorization t (c\<lparr>retry := Some True\<rparr>)), sess)) \<and>
         (refresh = Inr None \<or> refresh = Inr (Some []) \<longrightarrow>
            createResponseErrorHandler refresh err sess =
              (Reject (err\<lparr>config := Some (c\<lparr>retry := Some True\<rparr>)\<rparr>),
               sess\<lparr>credentials := None,
                    window := (case window sess of None \<Rightarrow> None
                               | Some href \<Rightarrow> Some ''/login'')\<rparr>)) \<and>
         (c = createRequestInterceptor (tokenAt n) cfg \<and> server n c = Inl (Some 401) \<and>
          refreshAt n = Inr (Some t) \<and> t \<noteq> [] \<longrightarrow>
            httpClient server tokenAt refreshAt n cfg sess =
              httpClient server tokenAt refreshAt (Suc n)
                (setAuthorization t (c\<lparr>retry := Some True\<rparr>)) sess)"
proof -
  have one: "createResponseErrorHandler (Inr (Some t)) err sess =
               (Reissue (setAuthorization t (c\<lparr>retry := Some True\<rparr>)), sess)" if "t \<noteq> []"
    using assms that by (simp add: createResponseErrorHandler_def Let_def)
  have two: "createResponseErrorHandler refresh err sess =
               (Reject (err\<lparr>config := Some (c\<lparr>retry := Some True\<rparr>)\<rparr>),
                sess\<lparr>credentials := None,
                     window := (case window sess of None \<Rightarrow> None
                                | Some href \<Rightarrow> Some ''/login'')\<rparr>)"
    if "refresh = Inr None \<or> refresh = Inr (Some [])"
    using assms that by (auto simp: createResponseErrorHandler_def Let_def)
  have three: "httpClient server tokenAt refreshAt n cfg sess =
                 httpClient server tokenAt refreshAt (Suc n)
                   (setAuthorization t (c\<lparr>retry := Some True\<rparr>)) sess"
    if "c = createRequestInterceptor (tokenAt n) cfg" "server n c = Inl (Some 401)"
      "refreshAt n = Inr (Some t)" "t \<noteq> []"
  proof -
    have "createResponseErrorHandler (refreshAt n) \<lparr>config = Some c, status = Some 401\<rparr> sess =
            (Reissue (setAuthorization t (c\<lparr>retry := Some True\<rparr>)), sess)"
      using assms(3) assms(4) that by (simp add: createResponseErrorHandler_def Let_def)
    with that show ?thesis
      by (simp add: httpClient.simps [of server tokenAt refreshAt n cfg sess])
  qed
  from one two three show ?thesis by blast
qed

theorem unauthorized_refresh_reissue_or_logout_witness:
  "createResponseErrorHandler (Inr (Some ''t1''))
     \<lparr>config = Some (sample_request ''/students''), status = Some 401\<rparr>
     (sample_session (Some ''/dashboard'')) =
     (Reissue \<lparr>url = Some ''/students'', headers = Some [''Authorization'' \<mapsto> ''Bearer t1''],
               retry = Some True\<rparr>,
      sample_session (Some ''/dashboard'')) \<and>
   createResponseErrorHandler (Inr None)
     \<lparr>config = Some (sample_request ''/students''), status = Some 401\<rparr>
     (sample_session (Some ''/dashboard'')) =
     (Reject \<lparr>config = Some \<lparr>url = Some ''/students'', headers = None, retry = Some True\<rparr>,
              status = Some 401\<rparr>,
      \<lparr>credentials = None, window = Some ''/login''\<rparr>)"
proof -
  have b: "\<not> isAuthEndpoint (sample_request ''/students'')"
    by (simp add: isAuthEndpoint_def authEndpoints_def sample_request_def)
  have r: "retry (sample_request ''/students'') \<noteq> Some True"
    by (simp add: sample_request_def)
  from unauthorized_refresh_reissue_or_logout
         [where err = "\<lparr>config = Some (sample_request ''/students''), status = Some 401\<rparr>"
            and c = "sample_request ''/students''" and refresh = "Inr (Some ''t1'')"
            and t = "''t1''" and sess = "sample_session (Some ''/dashboard'')"
            and tokenAt = "token_of ''t0''" and refreshAt = "token_of ''t1''" and n = 0
            and cfg = "sample_request ''/students''" and server = server_401, OF _ _ r b]
       unauthorized_refresh_reissue_or_logout
         [where err = "\<lparr>config = Some (sample_request ''/students''), status = Some 401\<rparr>"
            and c = "sample_request ''/students''" and refresh = "Inr None"
            and t = "''t1''" and sess = "sample_session (Some ''/dashboard'')"
            and tokenAt = "token_of ''t0''" and refreshAt = "token_of ''t1''" and n = 0
            and cfg = "sample_request ''/students''" and server = server_401, OF _ _ r b]
  show ?thesis
    by (simp add: sample_request_def sample_session_def setAuthorization_def)
qed

text \<open>
  C6 as stated fails where no window exists: the credentials are cleared and the
  failure is propagated, but nothing is redirected to the login page.
\<close>

theorem no_window_no_redirect_counterexample:
  "window
     (snd (createResponseErrorHandler (Inr None)
        \<lparr>config = Some (sample_request ''/students''), status = Some 401\<rparr>
        (sample_session None))) \<noteq> Some ''/login''"
  by (simp add: createResponseErrorHandler_def isAuthEndpoint_def authEndpoints_def
      sample_request_def sample_session_def)

text \<open>
  C1. Whatever the server and the token manager answer, the client sends a request at
  most twice, the request and one retry, and a request that is marked as retried is
  sent once. On a failure of a request marked as retried the handler rejects with that
  failure and changes nothing; whenever the handler reissues, the failure had status
  401 and the reissued request is marked as retried. Against a server that answers
  every request with 401 the client ends in a rejection. The client is a total
  function: it returns on every input.
\<close>

theorem retry_at_most_once:
  "fst (snd (httpClient server tokenAt refreshAt n cfg sess)) \<le> n + 2 \<and>
   (retry cfg = Some True \<longrightarrow>
      fst (snd (httpClient server tokenAt refreshAt n cfg sess)) = Suc n) \<and>
   (retry c = Some True \<longrightarrow>
      createResponseErrorHandler refresh \<lparr>config = Some c, status = st\<rparr> sess =
        (Reject \<lparr>config = Some c, status = st\<rparr>, sess)) \<and>
   (\<forall>again sess'. createResponseErrorHandler refresh err sess = (Reissue again, sess') \<longrightarrow>
      retry again = Some True \<and> status err = Some 401) \<and>
   ((\<forall>k c. server k c = Inl (Some 401)) \<longrightarrow>
      is_rejection (fst (httpClient server tokenAt refreshAt n cfg sess)))"
proof -
  have "createResponseErrorHandler refresh err sess = (Reissue again, sess') \<Longrightarrow>
          retry again = Some True \<and> status err = Some 401" for again sess'
    by (auto simp: createResponseErrorHandler_def setAuthorization_def Let_def
        split: option.splits if_splits sum.splits)
  then show ?thesis
    using httpClient_sends [of server tokenAt refreshAt n cfg sess]
      httpClient_retried [of cfg server tokenAt refreshAt n sess]
      handler_retried [of c refresh st sess]
      httpClient_always_401 [of server tokenAt refreshAt n cfg sess]
    by blast
qed

theorem retry_at_most_once_witness:
  "fst (snd (httpClient server_401 (token_of ''t0'') (token_of ''t1'') 0
               (sample_request ''/students'') (sample_session (Some ''/dashboard'')))) = 2 \<and>
   is_rejection
     (fst (httpClient server_401 (token_of ''t0'') (token_of ''t1'') 0
             (sample_request ''/students'') (sample_session (Some ''/dashboard''))))"
proof -
  have "2 \<le> fst (snd (httpClient server_401 (token_of ''t0'') (token_of ''t1'') 0
               (sample_request ''/students'') (sample_session (Some ''/dashboard''))))"
    apply (subst httpClient.simps)
    apply (simp add: createRequestInterceptor_def createResponseErrorHandler_def
        setAuthorization_def isAuthEndpoint_def authEndpoints_def sample_request_def
        sample_session_def server_401_def token_of_def)
    apply (subst httpClient.simps)
    apply (simp add: createRequestInterceptor_def createResponseErrorHandler_def
        setAuthorization_def isAuthEndpoint_def authEndpoints_def server_401_def token_of_def)
    done
  with retry_at_most_once
    [where server = server_401 and tokenAt = "token_of ''t0''" and refreshAt = "token_of ''t1''"
       and n = 0 and cfg = "sample_request ''/students''"
       and sess = "sample_session (Some ''/dashboard'')"
       and c = "sample_request ''/students''" and refresh = "Inr None" and st = None
       and err = "\<lparr>config = None, status = None\<rparr>"]
  show ?thesis
    by (simp add: server_401_def)
qed

text \<open>
  C10 is about several requests waiting on one refresh inside the token manager. The
  interceptors only call \<^verbatim>\<open>TokenManager.getValidAccessToken\<close> and
  \<^verbatim>\<open>TokenManager.refreshAccessToken\<close> and hold no refresh of their own, and the token
  manager is not among the sources; its outcomes are parameters above. Nothing here
  states how overlapping calls to it are joined.
\<close>

end
